theory Spec2Isabelle
  imports Main
begin

section \<open>Lifecycle of the FWTX Wiki API process (src/wiki.py)\<close>

text \<open>
  The module \<^verbatim>\<open>wiki.py\<close> defines the async context manager \<^verbatim>\<open>lifespan\<close> and the
  coroutine \<^verbatim>\<open>initialize_graphiti\<close>. Both are embedded below as functions over an explicit
  state: the trace of everything they log and every collaborator they call, and the queue
  of tasks handed to the asyncio event loop. The collaborators that live in other modules
  (\<^verbatim>\<open>settings\<close>, \<^verbatim>\<open>graphiti_init\<close>, \<^verbatim>\<open>start_sync_scheduler\<close>, \<^verbatim>\<open>stop_sync_scheduler\<close>) and the
  process environment are parameters, collected in the record \<open>host\<close>.
\<close>

subsection \<open>Strings, the environment and the settings\<close>

text \<open>
  \<^verbatim>\<open>str.lower()\<close>. On ASCII it maps \<^verbatim>\<open>A..Z\<close> to \<^verbatim>\<open>a..z\<close> and leaves every other character
  alone. A \<open>string\<close> here is a list of bytes; the bytes of a non-ASCII character are left
  unchanged, which agrees with Python wherever the result is compared with \<^verbatim>\<open>"true"\<close>:
  no non-ASCII character lower-cases to one of the letters t, r, u, e.
\<close>

definition lower_char :: "char \<Rightarrow> char" where
  "lower_char c =
     (case map_of (zip ''ABCDEFGHIJKLMNOPQRSTUVWXYZ'' ''abcdefghijklmnopqrstuvwxyz'') c of
        None \<Rightarrow> c
      | Some l \<Rightarrow> l)"

definition str_lower :: "string \<Rightarrow> string" where
  "str_lower s = map lower_char s"

text \<open>\<^verbatim>\<open>os.getenv(key, default)\<close>: the value of the variable, the default when it is unset.\<close>

definition os_getenv :: "(string \<rightharpoonup> string) \<Rightarrow> string \<Rightarrow> string \<Rightarrow> string" where
  "os_getenv env key dflt = (case env key of None \<Rightarrow> dflt | Some v \<Rightarrow> v)"

text \<open>
  \<^verbatim>\<open>src.config.settings\<close> is not part of this module; the fields \<^verbatim>\<open>lifespan\<close> reads are taken
  as given. A field that may be unset is an option; Python's truth test on it is
  \<open>truthy\<close> (\<^verbatim>\<open>None\<close> and the empty string are false), and an f-string renders it with
  \<open>py_str\<close>.
\<close>

record settings =
  ALLOWED_ORIGINS :: "string option"
  DOCS_ENABLED :: bool
  API_KEY :: "string option"
  OPENAI_API_BASE :: "string option"
  OPENAI_API_KEY :: "string option"
  OPENAI_MODEL :: "string option"

definition truthy :: "string option \<Rightarrow> bool" where
  "truthy v = (case v of None \<Rightarrow> False | Some s \<Rightarrow> s \<noteq> [])"

definition py_str :: "string option \<Rightarrow> string" where
  "py_str v = (case v of None \<Rightarrow> ''None'' | Some s \<Rightarrow> s)"

definition py_bool_str :: "bool \<Rightarrow> string" where
  "py_bool_str b = (if b then ''True'' else ''False'')"

subsection \<open>Exceptions and the collaborators\<close>

text \<open>
  Every handler in the module is \<^verbatim>\<open>except Exception as e\<close>, so what matters about a raised
  object is whether it is an instance of \<^verbatim>\<open>Exception\<close>, and its \<^verbatim>\<open>str(e)\<close>, which the
  handlers log. \<open>Exception m\<close> is any instance of \<^verbatim>\<open>Exception\<close> (ValueError, RuntimeError,
  MemoryError, ...) with message \<open>m\<close>; \<open>BaseException m\<close> is a raised object outside that
  class (SystemExit, KeyboardInterrupt, asyncio.CancelledError, GeneratorExit).
\<close>

datatype pyexc = Exception string | BaseException string

text \<open>A synchronous call returns or raises; an awaited call may also never complete.\<close>

datatype call_outcome = Returned | Raised pyexc

datatype await_outcome = Completed | Failed pyexc | Pending

record host =
  environ :: "string \<rightharpoonup> string"
  settings :: settings
  graphiti_init :: "bool \<Rightarrow> string \<Rightarrow> await_outcome"
  start_sync_scheduler :: call_outcome
  stop_sync_scheduler :: call_outcome

subsection \<open>The observable state\<close>

datatype level = INFO | WARNING | ERROR

text \<open>
  \<open>Log\<close> is a record written by \<^verbatim>\<open>logger\<close>; \<open>Create_task\<close> is \<^verbatim>\<open>asyncio.create_task\<close> applied to
  the coroutine \<^verbatim>\<open>initialize_graphiti(load_initial_data, sync_mode)\<close>; \<open>Graphiti_init\<close> is the
  call of \<^verbatim>\<open>graphiti_init\<close> with its two keyword arguments; \<open>Bulk_load\<close> is the bulk load the
  index gateway performs inside that call; the last two are the scheduler's operations.
\<close>

datatype event =
    Log level string
  | Create_task bool string
  | Graphiti_init bool string
  | Bulk_load string
  | Start_sync_scheduler
  | Stop_sync_scheduler

datatype coroutine = Initialize_graphiti bool string

record state =
  trace :: "event list"
  tasks :: "coroutine list"
  finished :: "(coroutine \<times> await_outcome) list"

definition emit :: "event \<Rightarrow> state \<Rightarrow> state" where
  "emit e s = s\<lparr>trace := trace s @ [e]\<rparr>"

definition logger_info :: "string \<Rightarrow> state \<Rightarrow> state" where
  "logger_info msg = emit (Log INFO msg)"

definition logger_warning :: "string \<Rightarrow> state \<Rightarrow> state" where
  "logger_warning msg = emit (Log WARNING msg)"

definition logger_error :: "string \<Rightarrow> state \<Rightarrow> state" where
  "logger_error msg = emit (Log ERROR msg)"

text \<open>
  \<^verbatim>\<open>try: ... except Exception as e: handler\<close>. The body has run to a result and a state; an
  instance of \<^verbatim>\<open>Exception\<close> is handed to the handler with its message and execution goes
  on after the statement, anything else propagates.
\<close>

definition except_Exception ::
  "(pyexc + unit) \<times> state \<Rightarrow> (string \<Rightarrow> state \<Rightarrow> state) \<Rightarrow> (pyexc + unit) \<times> state" where
  "except_Exception r handler =
     (case r of
        (Inr u, s) \<Rightarrow> (Inr (), s)
      | (Inl (Exception m), s) \<Rightarrow> (Inr (), handler m s)
      | (Inl (BaseException m), s) \<Rightarrow> (Inl (BaseException m), s))"

text \<open>A synchronous collaborator call: the call is recorded, then it returns or raises.\<close>

definition call :: "event \<Rightarrow> call_outcome \<Rightarrow> state \<Rightarrow> (pyexc + unit) \<times> state" where
  "call e out s = (case out of Returned \<Rightarrow> (Inr (), emit e s) | Raised x \<Rightarrow> (Inl x, emit e s))"

text \<open>
  \<^verbatim>\<open>asyncio.create_task(coro)\<close> inside a running coroutine: the coroutine is wrapped in a task
  and queued on the loop; it does not start before the caller suspends. \<^verbatim>\<open>lifespan\<close> is
  itself driven by the loop, so the call does not raise.
\<close>

definition asyncio_create_task :: "coroutine \<Rightarrow> state \<Rightarrow> (pyexc + unit) \<times> state" where
  "asyncio_create_task c s =
     (case c of Initialize_graphiti b m \<Rightarrow>
        (Inr (), (emit (Create_task b m) s)\<lparr>tasks := tasks s @ [c]\<rparr>))"

subsection \<open>The configuration read at startup (lines 52, 53 and 62)\<close>

definition load_initial_data :: "host \<Rightarrow> bool" where
  "load_initial_data h =
     (str_lower (os_getenv (environ h) ''LOAD_INITIAL_DATA'' ''false'') = ''true'')"

definition sync_mode :: "host \<Rightarrow> string" where
  "sync_mode h = os_getenv (environ h) ''SYNC_MODE'' ''initial''"

definition enable_sync_scheduler :: "host \<Rightarrow> bool" where
  "enable_sync_scheduler h =
     (str_lower (os_getenv (environ h) ''ENABLE_SYNC_SCHEDULER'' ''false'') = ''true'')"

subsection \<open>\<^verbatim>\<open>initialize_graphiti\<close> (lines 82 to 94)\<close>

text \<open>
  Modelled from the spec: the body of \<^verbatim>\<open>graphiti_init\<close> (src/services/graphiti/index.py) is
  not part of this module. Section 4.3 of the specification says of it that the gateway
  always runs and performs a bulk load unless the intent is skip, that is unless
  \<^verbatim>\<open>load_initial_data_flag\<close> is false. Whether the call then completes, raises or never
  returns is the parameter \<open>graphiti_init\<close> of the host.
\<close>

definition graphiti_init_effects :: "bool \<Rightarrow> string \<Rightarrow> state \<Rightarrow> state" where
  "graphiti_init_effects load_initial_data_flag mode s =
     (let s1 = emit (Graphiti_init load_initial_data_flag mode) s
      in if load_initial_data_flag then emit (Bulk_load mode) s1 else s1)"

text \<open>
  The coroutine awaits \<^verbatim>\<open>graphiti_init\<close> inside \<^verbatim>\<open>try ... except Exception\<close>. Its result is
  the result of the task that runs it: completed, failed with the exception that left it,
  or suspended for ever at the \<^verbatim>\<open>await\<close>.
\<close>

definition initialize_graphiti :: "host \<Rightarrow> bool \<Rightarrow> string \<Rightarrow> state \<Rightarrow> await_outcome \<times> state" where
  "initialize_graphiti h load mode s =
     (let s1 = graphiti_init_effects load mode s in
      case graphiti_init h load mode of
        Pending \<Rightarrow> (Pending, s1)
      | Completed \<Rightarrow>
          (let s2 = logger_info ''Graphiti initialization completed successfully'' s1;
               s3 = (if load
                     then logger_info (''Initial data loaded using '' @ mode @ '' mode'') s2
                     else s2)
           in (Completed, s3))
      | Failed x \<Rightarrow>
          (case except_Exception (Inl x, s1)
                  (\<lambda>e. logger_error (''Graphiti initialization failed: '' @ e)) of
             (Inr u, s2) \<Rightarrow> (Completed, s2)
           | (Inl y, s2) \<Rightarrow> (Failed y, s2)))"

subsection \<open>\<^verbatim>\<open>lifespan\<close> (lines 32 to 79)\<close>

text \<open>Lines 35 to 46: the banner and the warning about a missing API key.\<close>

definition log_settings :: "host \<Rightarrow> state \<Rightarrow> state" where
  "log_settings h s =
     (let c = settings h;
          s1 = logger_info ''Starting up FWTX NextGen Wiki API'' s;
          s2 = logger_info ''--- Application Settings ---'' s1;
          s3 = logger_info (''Allowed Origins: '' @
                 (if truthy (ALLOWED_ORIGINS c) then py_str (ALLOWED_ORIGINS c)
                  else ''[Not Set - Allowing all by default in middleware]'')) s2;
          s4 = logger_info (''Docs Enabled: '' @ py_bool_str (DOCS_ENABLED c)) s3;
          s5 = logger_info (''API Key: '' @
                 (if truthy (API_KEY c) then ''Set''
                  else ''Not Set - Authentication Disabled'')) s4;
          s6 = logger_info (''OpenAI API Base: '' @ py_str (OPENAI_API_BASE c)) s5;
          s7 = logger_info (''OpenAI API Key: '' @
                 (if truthy (OPENAI_API_KEY c) then ''Set'' else ''Not Set'')) s6;
          s8 = logger_info (''OpenAI Model: '' @ py_str (OPENAI_MODEL c)) s7;
          s9 = logger_info ''--------------------------'' s8
      in if \<not> truthy (API_KEY c)
         then logger_warning ''API_KEY not set in environment. Authentication is disabled.'' s9
         else s9)"

text \<open>Lines 49 to 59: the initialisation is handed to the loop as a task, not awaited.\<close>

definition start_graphiti :: "host \<Rightarrow> state \<Rightarrow> (pyexc + unit) \<times> state" where
  "start_graphiti h s =
     except_Exception
       (let s1 = logger_info ''Initializing Graphiti knowledge graph...'' s;
            load = load_initial_data h;
            mode = sync_mode h
        in case asyncio_create_task (Initialize_graphiti load mode) s1 of
             (Inl x, s2) \<Rightarrow> (Inl x, s2)
           | (Inr u, s2) \<Rightarrow>
               (Inr (), logger_info
                  (''Graphiti initialization started in background (mode: '' @ mode @ '')'') s2))
       (\<lambda>e. logger_error (''Failed to start Graphiti initialization: '' @ e))"

text \<open>Lines 62 to 68: the scheduler is started only when the flag enables it.\<close>

definition start_scheduler :: "host \<Rightarrow> state \<Rightarrow> (pyexc + unit) \<times> state" where
  "start_scheduler h s =
     (if enable_sync_scheduler h then
        except_Exception
          (let s1 = logger_info ''Starting data sync scheduler...'' s
           in case call Start_sync_scheduler (start_sync_scheduler h) s1 of
                (Inl x, s2) \<Rightarrow> (Inl x, s2)
              | (Inr u, s2) \<Rightarrow> (Inr (), logger_info ''Data sync scheduler started'' s2))
          (\<lambda>e. logger_error (''Failed to start sync scheduler: '' @ e))
      else (Inr (), s))"

text \<open>The code before the \<^verbatim>\<open>yield\<close> (lines 35 to 68).\<close>

definition lifespan_startup :: "host \<Rightarrow> state \<Rightarrow> (pyexc + unit) \<times> state" where
  "lifespan_startup h s =
     (case start_graphiti h (log_settings h s) of
        (Inl x, s1) \<Rightarrow> (Inl x, s1)
      | (Inr u, s1) \<Rightarrow> start_scheduler h s1)"

text \<open>The code after the \<^verbatim>\<open>yield\<close> (lines 73 to 79).\<close>

definition lifespan_shutdown :: "host \<Rightarrow> state \<Rightarrow> (pyexc + unit) \<times> state" where
  "lifespan_shutdown h s =
     except_Exception
       (call Stop_sync_scheduler (stop_sync_scheduler h)
          (logger_info ''Shutting down FWTX Wiki API'' s))
       (\<lambda>e. logger_error (''Error stopping sync scheduler: '' @ e))"

subsection \<open>The generator behind \<^verbatim>\<open>@asynccontextmanager\<close>\<close>

text \<open>
  \<^verbatim>\<open>lifespan\<close> is an async generator with a single \<^verbatim>\<open>yield\<close>. The generator object is at
  one of three places: not started, suspended at the \<^verbatim>\<open>yield\<close> (the application is
  serving), or finished (it returned or an exception left it). Resuming it (\<^verbatim>\<open>anext\<close>)
  runs the code up to the next \<^verbatim>\<open>yield\<close> or to the end; a finished generator runs
  nothing and signals \<^verbatim>\<open>StopAsyncIteration\<close>.
\<close>

datatype position = Not_started | Serving_ready | Stopped

datatype signal = Yielded | StopAsyncIteration | Propagated pyexc

record generator =
  position :: position
  frame :: state

definition anext :: "host \<Rightarrow> generator \<Rightarrow> signal \<times> generator" where
  "anext h g =
     (case position g of
        Not_started \<Rightarrow>
          (case lifespan_startup h (frame g) of
             (Inr u, s) \<Rightarrow> (Yielded, \<lparr>position = Serving_ready, frame = s\<rparr>)
           | (Inl x, s) \<Rightarrow> (Propagated x, \<lparr>position = Stopped, frame = s\<rparr>))
      | Serving_ready \<Rightarrow>
          (case lifespan_shutdown h (frame g) of
             (Inr u, s) \<Rightarrow> (StopAsyncIteration, \<lparr>position = Stopped, frame = s\<rparr>)
           | (Inl x, s) \<Rightarrow> (Propagated x, \<lparr>position = Stopped, frame = s\<rparr>))
      | Stopped \<Rightarrow> (StopAsyncIteration, g))"

text \<open>The generator of a new process: nothing logged, nothing queued.\<close>

definition fresh :: state where
  "fresh = \<lparr>trace = [], tasks = [], finished = []\<rparr>"

definition lifespan :: generator where
  "lifespan = \<lparr>position = Not_started, frame = fresh\<rparr>"

text \<open>
  Entering the context manager resumes the generator once (the startup sequence);
  leaving it without an exception, which is what the shutdown trigger does, resumes it
  once more and takes \<^verbatim>\<open>StopAsyncIteration\<close> as the normal end. The \<^verbatim>\<open>RuntimeError\<close>
  branches are those of \<^verbatim>\<open>contextlib\<close> for a generator that does not yield on entry or
  yields again on exit; \<^verbatim>\<open>lifespan\<close> has a single \<^verbatim>\<open>yield\<close>, so neither arises once it has
  been entered.
\<close>

definition aenter :: "host \<Rightarrow> generator \<Rightarrow> (pyexc + unit) \<times> generator" where
  "aenter h g =
     (case anext h g of
        (Yielded, g') \<Rightarrow> (Inr (), g')
      | (StopAsyncIteration, g') \<Rightarrow> (Inl (Exception ''generator didn't yield''), g')
      | (Propagated x, g') \<Rightarrow> (Inl x, g'))"

definition aexit :: "host \<Rightarrow> generator \<Rightarrow> (pyexc + unit) \<times> generator" where
  "aexit h g =
     (case anext h g of
        (StopAsyncIteration, g') \<Rightarrow> (Inr (), g')
      | (Yielded, g') \<Rightarrow> (Inl (Exception ''generator didn't stop''), g')
      | (Propagated x, g') \<Rightarrow> (Inl x, g'))"

subsection \<open>The event loop while the generator is suspended\<close>

text \<open>
  Once \<^verbatim>\<open>lifespan\<close> has yielded, the loop runs the tasks that were queued. Each runs up to
  its end or to an \<^verbatim>\<open>await\<close> that never completes, and is then off the queue with its
  result; nothing queues it again.
\<close>

fun run_tasks :: "host \<Rightarrow> coroutine list \<Rightarrow> state \<Rightarrow> state" where
  "run_tasks h [] s = s"
| "run_tasks h (Initialize_graphiti load mode # cs) s =
     (case initialize_graphiti h load mode s of
        (r, s') \<Rightarrow>
          run_tasks h cs (s'\<lparr>finished := finished s' @ [(Initialize_graphiti load mode, r)]\<rparr>))"

definition serve :: "host \<Rightarrow> generator \<Rightarrow> generator" where
  "serve h g = g\<lparr>frame := run_tasks h (tasks (frame g)) ((frame g)\<lparr>tasks := []\<rparr>)\<rparr>"

text \<open>
  Reading a trace: what the banner of lines 35 to 46 logs, which events are log records,
  and how often a collaborator was called.
\<close>

definition banner :: "host \<Rightarrow> event list" where
  "banner h = trace (log_settings h fresh)"

fun is_log :: "event \<Rightarrow> bool" where
  "is_log (Log l m) = True"
| "is_log e = False"

definition calls :: "event \<Rightarrow> generator \<Rightarrow> nat" where
  "calls e g = count_list (trace (frame g)) e"

fun is_graphiti_init :: "event \<Rightarrow> bool" where
  "is_graphiti_init (Graphiti_init b m) = True"
| "is_graphiti_init e = False"

definition init_calls :: "generator \<Rightarrow> nat" where
  "init_calls g = length (filter is_graphiti_init (trace (frame g)))"

text \<open>
  The spellings that compare equal to \<^verbatim>\<open>"true"\<close> without regard to case: four characters,
  each the letter in either case.
\<close>

definition true_spelling :: "string \<Rightarrow> bool" where
  "true_spelling v =
     (case v of
        [a, b, c, d] \<Rightarrow>
          (a = CHR ''t'' \<or> a = CHR ''T'') \<and> (b = CHR ''r'' \<or> b = CHR ''R'') \<and>
          (c = CHR ''u'' \<or> c = CHR ''U'') \<and> (d = CHR ''e'' \<or> d = CHR ''E'')
      | _ \<Rightarrow> False)"

text \<open>A host with nothing configured, whose collaborators all succeed.\<close>

definition default_settings :: settings where
  "default_settings =
     \<lparr>ALLOWED_ORIGINS = None, DOCS_ENABLED = False, API_KEY = None,
      OPENAI_API_BASE = None, OPENAI_API_KEY = None, OPENAI_MODEL = None\<rparr>"

definition default_host :: host where
  "default_host =
     \<lparr>environ = Map.empty, settings = default_settings,
      graphiti_init = (\<lambda>load mode. Completed),
      start_sync_scheduler = Returned, stop_sync_scheduler = Returned\<rparr>"

text \<open>
  A host whose index initialisation never returns and whose scheduler cannot start, with
  the scheduler enabled.
\<close>

definition stalled_host :: host where
  "stalled_host =
     default_host\<lparr>environ := [''ENABLE_SYNC_SCHEDULER'' \<mapsto> ''true''],
                  graphiti_init := (\<lambda>load mode. Pending),
                  start_sync_scheduler := Raised (Exception ''scheduler unavailable'')\<rparr>"

text \<open>
  A host whose \<^verbatim>\<open>graphiti_init\<close> gives up with \<^verbatim>\<open>sys.exit("index store unavailable")\<close>, that
  is with \<^verbatim>\<open>SystemExit\<close>, one where it raises an ordinary exception, one with an unknown \<^verbatim>\<open>SYNC_MODE\<close>, one with \<^verbatim>\<open>LOAD_INITIAL_DATA=false\<close>,
  and one that enables the scheduler in capitals and asks for the load with \<^verbatim>\<open>1\<close>.
\<close>

definition exiting_host :: host where
  "exiting_host =
     default_host\<lparr>graphiti_init :=
                    (\<lambda>load mode. Failed (BaseException ''index store unavailable''))\<rparr>"

definition failing_host :: host where
  "failing_host =
     default_host\<lparr>graphiti_init := (\<lambda>load mode. Failed (Exception ''neo4j unreachable''))\<rparr>"

definition bogus_mode_host :: host where
  "bogus_mode_host = default_host\<lparr>environ := [''SYNC_MODE'' \<mapsto> ''bogus'']\<rparr>"

definition quiet_host :: host where
  "quiet_host = default_host\<lparr>environ := [''LOAD_INITIAL_DATA'' \<mapsto> ''false'']\<rparr>"

definition shouting_host :: host where
  "shouting_host =
     default_host\<lparr>environ := [''ENABLE_SYNC_SCHEDULER'' \<mapsto> ''TRUE'',
                              ''LOAD_INITIAL_DATA'' \<mapsto> ''1'']\<rparr>"

section \<open>Basic facts\<close>

subsection \<open>Lower-casing and the flags\<close>

lemma lower_char_t: "lower_char c = CHR ''t'' \<longleftrightarrow> c = CHR ''t'' \<or> c = CHR ''T''"
  by (simp add: lower_char_def)

lemma lower_char_r: "lower_char c = CHR ''r'' \<longleftrightarrow> c = CHR ''r'' \<or> c = CHR ''R''"
  by (simp add: lower_char_def)

lemma lower_char_u: "lower_char c = CHR ''u'' \<longleftrightarrow> c = CHR ''u'' \<or> c = CHR ''U''"
  by (simp add: lower_char_def)

lemma lower_char_e: "lower_char c = CHR ''e'' \<longleftrightarrow> c = CHR ''e'' \<or> c = CHR ''E''"
  by (simp add: lower_char_def)

lemma map_eq_four:
  "map f v = [w, x, y, z] \<longleftrightarrow>
     (\<exists>a b c d. v = [a, b, c, d] \<and> f a = w \<and> f b = x \<and> f c = y \<and> f d = z)"
  by (cases v; simp add: map_eq_Cons_conv) blast

lemma str_lower_true: "str_lower v = ''true'' \<longleftrightarrow> true_spelling v"
proof -
  have "str_lower v = ''true'' \<longleftrightarrow>
        (\<exists>a b c d. v = [a, b, c, d] \<and> lower_char a = CHR ''t'' \<and> lower_char b = CHR ''r''
           \<and> lower_char c = CHR ''u'' \<and> lower_char d = CHR ''e'')"
    unfolding str_lower_def by (rule map_eq_four)
  also have "\<dots> \<longleftrightarrow> true_spelling v"
    unfolding lower_char_t lower_char_r lower_char_u lower_char_e true_spelling_def
    by (auto split: list.splits)
  finally show ?thesis .
qed

lemma load_initial_data_iff:
  "load_initial_data h \<longleftrightarrow>
     (case environ h ''LOAD_INITIAL_DATA'' of None \<Rightarrow> False | Some v \<Rightarrow> true_spelling v)"
proof (cases "environ h ''LOAD_INITIAL_DATA''")
  case None
  then show ?thesis
    by (simp add: load_initial_data_def os_getenv_def str_lower_def lower_char_def)
next
  case (Some v)
  then show ?thesis
    by (simp add: load_initial_data_def os_getenv_def str_lower_true)
qed

lemma enable_sync_scheduler_iff:
  "enable_sync_scheduler h \<longleftrightarrow>
     (case environ h ''ENABLE_SYNC_SCHEDULER'' of None \<Rightarrow> False | Some v \<Rightarrow> true_spelling v)"
proof (cases "environ h ''ENABLE_SYNC_SCHEDULER''")
  case None
  then show ?thesis
    by (simp add: enable_sync_scheduler_def os_getenv_def str_lower_def lower_char_def)
next
  case (Some v)
  then show ?thesis
    by (simp add: enable_sync_scheduler_def os_getenv_def str_lower_true)
qed

subsection \<open>The state after each piece of \<^verbatim>\<open>lifespan\<close>\<close>

lemma emit_sel:
  "trace (emit e s) = trace s @ [e]" "tasks (emit e s) = tasks s"
  "finished (emit e s) = finished s" "state.more (emit e s) = state.more s"
  by (simp_all add: emit_def)

lemma emit_eq: "emit e s = s\<lparr>trace := trace s @ [e]\<rparr>"
  by (simp add: emit_def)

lemma log_settings_sel:
  "trace (log_settings h s) = trace s @ banner h"
  "tasks (log_settings h s) = tasks s"
  "finished (log_settings h s) = finished s"
  "state.more (log_settings h s) = state.more s"
  by (simp_all add: log_settings_def banner_def fresh_def Let_def logger_info_def
        logger_warning_def emit_sel)

lemma log_settings_eq: "log_settings h s = s\<lparr>trace := trace s @ banner h\<rparr>"
  by (rule state.equality) (simp_all add: log_settings_sel)

lemma banner_logs: "e \<in> set (banner h) \<Longrightarrow> is_log e"
  by (auto simp add: log_settings_def banner_def fresh_def Let_def logger_info_def
        logger_warning_def emit_eq split: if_splits)

lemma start_graphiti_eq:
  "start_graphiti h s =
     (Inr (), s\<lparr>trace := trace s @
                  [Log INFO ''Initializing Graphiti knowledge graph...'',
                   Create_task (load_initial_data h) (sync_mode h),
                   Log INFO (''Graphiti initialization started in background (mode: '' @
                             sync_mode h @ '')'')],
                tasks := tasks s @ [Initialize_graphiti (load_initial_data h) (sync_mode h)]\<rparr>)"
  by (simp add: start_graphiti_def except_Exception_def asyncio_create_task_def Let_def
        logger_info_def emit_eq)

lemma start_scheduler_disabled:
  "\<not> enable_sync_scheduler h \<Longrightarrow> start_scheduler h s = (Inr (), s)"
  by (simp add: start_scheduler_def)

lemma start_scheduler_Returned:
  "enable_sync_scheduler h \<Longrightarrow> start_sync_scheduler h = Returned \<Longrightarrow>
   start_scheduler h s =
     (Inr (), s\<lparr>trace := trace s @
                  [Log INFO ''Starting data sync scheduler...'', Start_sync_scheduler,
                   Log INFO ''Data sync scheduler started'']\<rparr>)"
  by (simp add: start_scheduler_def except_Exception_def call_def Let_def logger_info_def emit_eq)

lemma start_scheduler_Exception:
  "enable_sync_scheduler h \<Longrightarrow> start_sync_scheduler h = Raised (Exception m) \<Longrightarrow>
   start_scheduler h s =
     (Inr (), s\<lparr>trace := trace s @
                  [Log INFO ''Starting data sync scheduler...'', Start_sync_scheduler,
                   Log ERROR (''Failed to start sync scheduler: '' @ m)]\<rparr>)"
  by (simp add: start_scheduler_def except_Exception_def call_def Let_def logger_info_def
        logger_error_def emit_eq)

lemma start_scheduler_BaseException:
  "enable_sync_scheduler h \<Longrightarrow> start_sync_scheduler h = Raised (BaseException m) \<Longrightarrow>
   start_scheduler h s =
     (Inl (BaseException m),
      s\<lparr>trace := trace s @ [Log INFO ''Starting data sync scheduler...'', Start_sync_scheduler]\<rparr>)"
  by (simp add: start_scheduler_def except_Exception_def call_def Let_def logger_info_def emit_eq)

lemma lifespan_shutdown_cases:
  "lifespan_shutdown h s =
     (case stop_sync_scheduler h of
        Returned \<Rightarrow>
          (Inr (), s\<lparr>trace := trace s @
                       [Log INFO ''Shutting down FWTX Wiki API'', Stop_sync_scheduler]\<rparr>)
      | Raised (Exception m) \<Rightarrow>
          (Inr (), s\<lparr>trace := trace s @
                       [Log INFO ''Shutting down FWTX Wiki API'', Stop_sync_scheduler,
                        Log ERROR (''Error stopping sync scheduler: '' @ m)]\<rparr>)
      | Raised (BaseException m) \<Rightarrow>
          (Inl (BaseException m),
           s\<lparr>trace := trace s @
                [Log INFO ''Shutting down FWTX Wiki API'', Stop_sync_scheduler]\<rparr>))"
  by (simp add: lifespan_shutdown_def except_Exception_def call_def logger_info_def
        logger_error_def emit_eq split: call_outcome.splits pyexc.splits)

lemma start_scheduler_shape:
  "\<exists>r evs. start_scheduler h s = (r, s\<lparr>trace := trace s @ evs\<rparr>) \<and>
      (\<forall>e\<in>set evs. is_log e \<or> e = Start_sync_scheduler) \<and>
      (Start_sync_scheduler \<in> set evs \<longleftrightarrow> enable_sync_scheduler h) \<and>
      count_list evs Start_sync_scheduler = (if enable_sync_scheduler h then 1 else 0) \<and>
      (r = Inr () \<or> (\<exists>m. r = Inl (BaseException m) \<and> enable_sync_scheduler h \<and>
                         start_sync_scheduler h = Raised (BaseException m)))"
proof (cases "enable_sync_scheduler h")
  case False
  then have "start_scheduler h s = (Inr (), s\<lparr>trace := trace s @ []\<rparr>)"
    by (simp add: start_scheduler_disabled)
  with False show ?thesis by (intro exI[of _ "Inr ()"] exI[of _ "[]"]) simp
next
  case True
  show ?thesis
  proof (cases "start_sync_scheduler h")
    case Returned
    from start_scheduler_Returned[OF True Returned, of s] True show ?thesis
      by (intro exI[of _ "Inr ()"] exI[of _ "[Log INFO ''Starting data sync scheduler...'', Start_sync_scheduler,
                   Log INFO ''Data sync scheduler started'']"]) simp
  next
    case (Raised x)
    show ?thesis
    proof (cases x)
      case (Exception m)
      with Raised have r: "start_sync_scheduler h = Raised (Exception m)" by simp
      from start_scheduler_Exception[OF True r, of s] True show ?thesis
        by (intro exI[of _ "Inr ()"] exI[of _ "[Log INFO ''Starting data sync scheduler...'', Start_sync_scheduler,
                   Log ERROR (''Failed to start sync scheduler: '' @ m)]"]) simp
    next
      case (BaseException m)
      with Raised have r: "start_sync_scheduler h = Raised (BaseException m)" by simp
      from start_scheduler_BaseException[OF True r, of s] True r show ?thesis
        by (intro exI[of _ "Inl (BaseException m)"] exI[of _ "[Log INFO ''Starting data sync scheduler...'', Start_sync_scheduler]"]) simp
    qed
  qed
qed

lemma lifespan_startup_eq:
  "lifespan_startup h s =
     start_scheduler h
       (s\<lparr>trace := trace s @ banner h @
                  [Log INFO ''Initializing Graphiti knowledge graph...'',
                   Create_task (load_initial_data h) (sync_mode h),
                   Log INFO (''Graphiti initialization started in background (mode: '' @
                             sync_mode h @ '')'')],
          tasks := tasks s @ [Initialize_graphiti (load_initial_data h) (sync_mode h)]\<rparr>)"
  by (simp add: lifespan_startup_def log_settings_eq start_graphiti_eq)

lemma banner_no_call [simp]:
  "Start_sync_scheduler \<notin> set (banner h)" "Stop_sync_scheduler \<notin> set (banner h)"
  "Create_task b m \<notin> set (banner h)" "Graphiti_init b m \<notin> set (banner h)"
  "Bulk_load m \<notin> set (banner h)"
  using banner_logs by fastforce+

lemma filter_banner [simp]: "filter is_graphiti_init (banner h) = []"
proof -
  have "\<forall>e\<in>set (banner h). \<not> is_graphiti_init e"
  proof
    fix e assume "e \<in> set (banner h)"
    then have "is_log e" by (rule banner_logs)
    then show "\<not> is_graphiti_init e" by (cases e) simp_all
  qed
  then show ?thesis by (simp add: filter_empty_conv)
qed

lemma initialize_graphiti_cases:
  "initialize_graphiti h l m s =
     (case graphiti_init h l m of
        Pending \<Rightarrow>
          (Pending, s\<lparr>trace := trace s @ Graphiti_init l m # (if l then [Bulk_load m] else [])\<rparr>)
      | Completed \<Rightarrow>
          (Completed,
           s\<lparr>trace := trace s @ Graphiti_init l m # (if l then [Bulk_load m] else []) @
                Log INFO ''Graphiti initialization completed successfully'' #
                (if l then [Log INFO (''Initial data loaded using '' @ m @ '' mode'')] else [])\<rparr>)
      | Failed (Exception x) \<Rightarrow>
          (Completed,
           s\<lparr>trace := trace s @ Graphiti_init l m # (if l then [Bulk_load m] else []) @
                [Log ERROR (''Graphiti initialization failed: '' @ x)]\<rparr>)
      | Failed (BaseException x) \<Rightarrow>
          (Failed (BaseException x),
           s\<lparr>trace := trace s @ Graphiti_init l m # (if l then [Bulk_load m] else [])\<rparr>))"
  by (simp add: initialize_graphiti_def graphiti_init_effects_def except_Exception_def Let_def
        logger_info_def logger_error_def emit_eq split: await_outcome.splits pyexc.splits)

lemma initialize_graphiti_shape:
  "\<exists>r evs. initialize_graphiti h l m s = (r, s\<lparr>trace := trace s @ Graphiti_init l m # evs\<rparr>) \<and>
      (\<forall>e\<in>set evs. is_log e \<or> e = Bulk_load m) \<and> (Bulk_load m \<in> set evs \<longleftrightarrow> l)"
proof (cases "graphiti_init h l m")
  case Completed
  then show ?thesis
    by (intro exI[of _ Completed] exI[of _ "(if l then [Bulk_load m] else []) @
                Log INFO ''Graphiti initialization completed successfully'' #
                (if l then [Log INFO (''Initial data loaded using '' @ m @ '' mode'')] else [])"])
       (auto simp add: initialize_graphiti_cases)
next
  case (Failed x)
  then show ?thesis
  proof (cases x)
    case (Exception e)
    with Failed show ?thesis
      by (intro exI[of _ Completed] exI[of _ "(if l then [Bulk_load m] else []) @
                [Log ERROR (''Graphiti initialization failed: '' @ e)]"])
         (auto simp add: initialize_graphiti_cases)
  next
    case (BaseException e)
    with Failed show ?thesis
      by (intro exI[of _ "Failed (BaseException e)"] exI[of _ "(if l then [Bulk_load m] else [])"])
         (auto simp add: initialize_graphiti_cases)
  qed
next
  case Pending
  then show ?thesis
    by (intro exI[of _ Pending] exI[of _ "(if l then [Bulk_load m] else [])"])
       (auto simp add: initialize_graphiti_cases)
qed

lemma aenter_lifespan_shape:
  "\<exists>r p evs. aenter h lifespan =
      (r, \<lparr>position = p,
           frame = \<lparr>trace = banner h @
                      [Log INFO ''Initializing Graphiti knowledge graph...'',
                       Create_task (load_initial_data h) (sync_mode h),
                       Log INFO (''Graphiti initialization started in background (mode: '' @
                                 sync_mode h @ '')'')] @ evs,
                    tasks = [Initialize_graphiti (load_initial_data h) (sync_mode h)],
                    finished = []\<rparr>\<rparr>) \<and>
      (\<forall>e\<in>set evs. is_log e \<or> e = Start_sync_scheduler) \<and>
      count_list evs Start_sync_scheduler = (if enable_sync_scheduler h then 1 else 0) \<and>
      ((r = Inr () \<and> p = Serving_ready) \<or>
       (\<exists>m. r = Inl (BaseException m) \<and> p = Stopped \<and> enable_sync_scheduler h \<and>
            start_sync_scheduler h = Raised (BaseException m)))"
proof -
  let ?s = "fresh\<lparr>trace := trace fresh @ banner h @
                  [Log INFO ''Initializing Graphiti knowledge graph...'',
                   Create_task (load_initial_data h) (sync_mode h),
                   Log INFO (''Graphiti initialization started in background (mode: '' @
                             sync_mode h @ '')'')],
          tasks := tasks fresh @ [Initialize_graphiti (load_initial_data h) (sync_mode h)]\<rparr>"
  from start_scheduler_shape[of h ?s] obtain r evs where
    eq: "start_scheduler h ?s = (r, ?s\<lparr>trace := trace ?s @ evs\<rparr>)" and
    lg: "\<forall>e\<in>set evs. is_log e \<or> e = Start_sync_scheduler" and
    cn: "count_list evs Start_sync_scheduler = (if enable_sync_scheduler h then 1 else 0)" and
    rr: "r = Inr () \<or> (\<exists>m. r = Inl (BaseException m) \<and> enable_sync_scheduler h \<and>
                         start_sync_scheduler h = Raised (BaseException m))"
    by blast
  have st: "lifespan_startup h fresh = (r, ?s\<lparr>trace := trace ?s @ evs\<rparr>)"
    using eq by (simp only: lifespan_startup_eq)
  from rr show ?thesis
  proof
    assume r: "r = Inr ()"
    have "aenter h lifespan = (Inr (), \<lparr>position = Serving_ready, frame = ?s\<lparr>trace := trace ?s @ evs\<rparr>\<rparr>)"
      using st r by (simp add: aenter_def anext_def lifespan_def)
    with lg cn r show ?thesis
      by (intro exI[of _ "Inr ()"] exI[of _ Serving_ready] exI[of _ evs]) (simp add: fresh_def)
  next
    assume "\<exists>m. r = Inl (BaseException m) \<and> enable_sync_scheduler h \<and>
                         start_sync_scheduler h = Raised (BaseException m)"
    then obtain m where r: "r = Inl (BaseException m)" and en: "enable_sync_scheduler h"
      and sr: "start_sync_scheduler h = Raised (BaseException m)" by blast
    have "aenter h lifespan = (Inl (BaseException m), \<lparr>position = Stopped, frame = ?s\<lparr>trace := trace ?s @ evs\<rparr>\<rparr>)"
      using st r by (simp add: aenter_def anext_def lifespan_def)
    with lg cn r en sr show ?thesis
      by (intro exI[of _ "Inl (BaseException m)"] exI[of _ Stopped] exI[of _ evs]) (simp add: fresh_def)
  qed
qed

lemma serve_shape:
  assumes "tasks (frame g) = [Initialize_graphiti l m]"
  shows "\<exists>r evs. serve h g =
            g\<lparr>frame := (frame g)\<lparr>trace := trace (frame g) @ Graphiti_init l m # evs,
                                 tasks := [],
                                 finished := finished (frame g) @ [(Initialize_graphiti l m, r)]\<rparr>\<rparr> \<and>
          (\<forall>e\<in>set evs. is_log e \<or> e = Bulk_load m) \<and> (Bulk_load m \<in> set evs \<longleftrightarrow> l) \<and>
          r = fst (initialize_graphiti h l m ((frame g)\<lparr>tasks := []\<rparr>))"
proof -
  from initialize_graphiti_shape[of h l m "(frame g)\<lparr>tasks := []\<rparr>"] obtain r evs where
    eq: "initialize_graphiti h l m ((frame g)\<lparr>tasks := []\<rparr>) =
           (r, (frame g)\<lparr>tasks := [], trace := trace (frame g) @ Graphiti_init l m # evs\<rparr>)" and
    lg: "\<forall>e\<in>set evs. is_log e \<or> e = Bulk_load m" and bl: "Bulk_load m \<in> set evs \<longleftrightarrow> l"
    by auto
  have "serve h g =
            g\<lparr>frame := (frame g)\<lparr>trace := trace (frame g) @ Graphiti_init l m # evs,
                                 tasks := [],
                                 finished := finished (frame g) @ [(Initialize_graphiti l m, r)]\<rparr>\<rparr>"
    using assms eq by (simp add: serve_def)
  with lg bl eq show ?thesis
    by (intro exI[of _ r] exI[of _ evs]) simp
qed

lemma filter_init_logs:
  "\<forall>e\<in>set evs. is_log e \<or> e = Bulk_load m \<or> e = Start_sync_scheduler \<or> e = Stop_sync_scheduler
     \<Longrightarrow> filter is_graphiti_init evs = []"
proof -
  assume a: "\<forall>e\<in>set evs. is_log e \<or> e = Bulk_load m \<or> e = Start_sync_scheduler \<or> e = Stop_sync_scheduler"
  have "\<forall>e\<in>set evs. \<not> is_graphiti_init e"
  proof
    fix e assume "e \<in> set evs"
    with a have "is_log e \<or> e = Bulk_load m \<or> e = Start_sync_scheduler \<or> e = Stop_sync_scheduler" by blast
    then show "\<not> is_graphiti_init e" by (cases e) auto
  qed
  then show ?thesis by (simp add: filter_empty_conv)
qed

lemma count_logs:
  assumes "\<forall>e\<in>set evs. is_log e \<or> e = x" and "\<not> is_log y" and "y \<noteq> x"
  shows "count_list evs y = 0"
proof -
  have "y \<notin> set evs" using assms by auto
  then show ?thesis by simp
qed

lemma indep_flags:
  "load_initial_data (h\<lparr>graphiti_init := b\<rparr>) = load_initial_data h"
  "sync_mode (h\<lparr>graphiti_init := b\<rparr>) = sync_mode h"
  "enable_sync_scheduler (h\<lparr>graphiti_init := b\<rparr>) = enable_sync_scheduler h"
  by (simp_all add: load_initial_data_def sync_mode_def enable_sync_scheduler_def)

lemma indep_banner: "banner (h\<lparr>graphiti_init := b\<rparr>) = banner h"
  unfolding banner_def log_settings_def by simp

lemma indep_start_scheduler:
  "start_scheduler (h\<lparr>graphiti_init := b\<rparr>) s = start_scheduler h s"
  unfolding start_scheduler_def by (simp add: indep_flags)

lemma indep_lifespan_startup:
  "lifespan_startup (h\<lparr>graphiti_init := b\<rparr>) s = lifespan_startup h s"
  by (simp only: lifespan_startup_eq indep_flags indep_banner indep_start_scheduler)

lemma indep_aenter: "aenter (h\<lparr>graphiti_init := b\<rparr>) lifespan = aenter h lifespan"
  by (simp add: aenter_def anext_def lifespan_def indep_lifespan_startup)

subsection \<open>Leaving the context manager, and the whole lifetime\<close>

lemma aexit_Serving_ready:
  "position g = Serving_ready \<Longrightarrow>
   aexit h g =
     (case lifespan_shutdown h (frame g) of
        (Inr u, s) \<Rightarrow> (Inr (), \<lparr>position = Stopped, frame = s\<rparr>)
      | (Inl x, s) \<Rightarrow> (Inl x, \<lparr>position = Stopped, frame = s\<rparr>))"
  by (simp add: aexit_def anext_def split: prod.splits sum.splits)

lemma aexit_Stopped: "position g = Stopped \<Longrightarrow> aexit h g = (Inr (), g)"
  by (simp add: aexit_def anext_def)

lemma lifespan_shutdown_shape:
  "\<exists>r evs. lifespan_shutdown h s = (r, s\<lparr>trace := trace s @ evs\<rparr>) \<and>
      (\<forall>e\<in>set evs. is_log e \<or> e = Stop_sync_scheduler) \<and>
      count_list evs Stop_sync_scheduler = 1"
proof (cases "stop_sync_scheduler h")
  case Returned
  then show ?thesis
    by (intro exI[of _ "Inr ()"]
          exI[of _ "[Log INFO ''Shutting down FWTX Wiki API'', Stop_sync_scheduler]"])
       (simp add: lifespan_shutdown_cases)
next
  case (Raised x)
  show ?thesis
  proof (cases x)
    case (Exception m)
    with Raised show ?thesis
      by (intro exI[of _ "Inr ()"]
            exI[of _ "[Log INFO ''Shutting down FWTX Wiki API'', Stop_sync_scheduler,
                       Log ERROR (''Error stopping sync scheduler: '' @ m)]"])
         (simp add: lifespan_shutdown_cases)
  next
    case (BaseException m)
    with Raised show ?thesis
      by (intro exI[of _ "Inl (BaseException m)"]
            exI[of _ "[Log INFO ''Shutting down FWTX Wiki API'', Stop_sync_scheduler]"])
         (simp add: lifespan_shutdown_cases)
  qed
qed

lemma aexit_shape:
  assumes "position g = Serving_ready"
  shows "\<exists>r evs. aexit h g =
            (r, \<lparr>position = Stopped, frame = (frame g)\<lparr>trace := trace (frame g) @ evs\<rparr>\<rparr>) \<and>
          (\<forall>e\<in>set evs. is_log e \<or> e = Stop_sync_scheduler) \<and>
          count_list evs Stop_sync_scheduler = 1"
proof -
  from lifespan_shutdown_shape[of h "frame g"] obtain r evs where
    eq: "lifespan_shutdown h (frame g) = (r, (frame g)\<lparr>trace := trace (frame g) @ evs\<rparr>)" and
    lg: "\<forall>e\<in>set evs. is_log e \<or> e = Stop_sync_scheduler" and
    cn: "count_list evs Stop_sync_scheduler = 1"
    by blast
  show ?thesis
  proof (cases r)
    case (Inl x)
    with eq assms lg cn show ?thesis
      by (intro exI[of _ "Inl x"] exI[of _ evs]) (simp add: aexit_Serving_ready)
  next
    case (Inr u)
    with eq assms lg cn show ?thesis
      by (intro exI[of _ "Inr ()"] exI[of _ evs]) (simp add: aexit_Serving_ready)
  qed
qed

lemma aenter_ok:
  assumes "enable_sync_scheduler h \<longrightarrow> (\<forall>m. start_sync_scheduler h \<noteq> Raised (BaseException m))"
  shows "fst (aenter h lifespan) = Inr ()" and "position (snd (aenter h lifespan)) = Serving_ready"
  using aenter_lifespan_shape[of h] assms by auto

lemma aenter_no_stop: "calls Stop_sync_scheduler (snd (aenter h lifespan)) = 0"
proof -
  from aenter_lifespan_shape[of h] obtain r p evs where
    eq: "aenter h lifespan =
      (r, \<lparr>position = p,
           frame = \<lparr>trace = banner h @
                      [Log INFO ''Initializing Graphiti knowledge graph...'',
                       Create_task (load_initial_data h) (sync_mode h),
                       Log INFO (''Graphiti initialization started in background (mode: '' @
                                 sync_mode h @ '')'')] @ evs,
                    tasks = [Initialize_graphiti (load_initial_data h) (sync_mode h)],
                    finished = []\<rparr>\<rparr>)" and
    lg: "\<forall>e\<in>set evs. is_log e \<or> e = Start_sync_scheduler"
    by blast
  have "count_list evs Stop_sync_scheduler = 0"
    using lg by (intro count_logs[of _ Start_sync_scheduler]) auto
  then show ?thesis unfolding eq calls_def by simp
qed

lemma default_host_flags:
  "\<not> enable_sync_scheduler default_host" "\<not> load_initial_data default_host"
  "sync_mode default_host = ''initial''"
  by (simp_all add: enable_sync_scheduler_iff load_initial_data_iff sync_mode_def os_getenv_def
        default_host_def)

lemma aexit_frame:
  assumes "position g \<noteq> Not_started"
  shows "\<exists>evs. frame (snd (aexit h g)) = (frame g)\<lparr>trace := trace (frame g) @ evs\<rparr> \<and>
           (\<forall>e\<in>set evs. is_log e \<or> e = Stop_sync_scheduler)"
proof (cases "position g")
  case Not_started
  with assms show ?thesis by simp
next
  case Serving_ready
  from aexit_shape[OF this, of h] show ?thesis by auto
next
  case Stopped
  then have "frame (snd (aexit h g)) = (frame g)\<lparr>trace := trace (frame g) @ []\<rparr>"
    by (simp add: aexit_Stopped)
  then show ?thesis by (intro exI[of _ "[]"]) simp
qed

lemma serve_idle: "tasks (frame g) = [] \<Longrightarrow> serve h g = g"
  by (cases g, cases "frame g") (simp add: serve_def)

lemma filter_not_log: "\<forall>e\<in>set evs. is_log e \<Longrightarrow> filter (\<lambda>e. \<not> is_log e) evs = []"
  by (simp add: filter_empty_conv)

lemma banner_all_logs: "\<forall>e\<in>set (banner h). is_log e"
  using banner_logs by blast

section \<open>The claims\<close>

subsection \<open>C1: serving-ready does not wait for the initialisation\<close>

text \<open>
  C1. For every configuration the startup sequence reaches the \<^verbatim>\<open>yield\<close> of \<^verbatim>\<open>lifespan\<close>
  without waiting for the detached \<^verbatim>\<open>initialize_graphiti\<close> task. Entering the context
  manager gives the same result whatever \<^verbatim>\<open>graphiti_init\<close> would do, also when it never
  returns; at the \<^verbatim>\<open>yield\<close> the task is queued and has neither run nor finished, and the
  generator stays at the \<^verbatim>\<open>yield\<close> while the loop runs the task. The one thing on the
  startup path that can keep the generator from yielding is not the initialisation: it is
  \<^verbatim>\<open>start_sync_scheduler\<close> raising outside \<^verbatim>\<open>Exception\<close> when the scheduler is enabled, which
  the hypothesis sets aside.
\<close>

theorem lifespan_yields_before_initialize:
  assumes "enable_sync_scheduler h \<longrightarrow> (\<forall>m. start_sync_scheduler h \<noteq> Raised (BaseException m))"
  shows "aenter (h\<lparr>graphiti_init := b\<rparr>) lifespan = aenter h lifespan \<and>
         (\<exists>g. aenter h lifespan = (Inr (), g) \<and> position g = Serving_ready \<and>
              tasks (frame g) = [Initialize_graphiti (load_initial_data h) (sync_mode h)] \<and>
              finished (frame g) = [] \<and> init_calls g = 0 \<and>
              position (serve h g) = Serving_ready)"
proof
  show "aenter (h\<lparr>graphiti_init := b\<rparr>) lifespan = aenter h lifespan"
    by (rule indep_aenter)
next
  from aenter_lifespan_shape[of h] assms obtain evs where
    eq: "aenter h lifespan =
      (Inr (), \<lparr>position = Serving_ready,
           frame = \<lparr>trace = banner h @
                      [Log INFO ''Initializing Graphiti knowledge graph...'',
                       Create_task (load_initial_data h) (sync_mode h),
                       Log INFO (''Graphiti initialization started in background (mode: '' @
                                 sync_mode h @ '')'')] @ evs,
                    tasks = [Initialize_graphiti (load_initial_data h) (sync_mode h)],
                    finished = []\<rparr>\<rparr>)" and
    lg: "\<forall>e\<in>set evs. is_log e \<or> e = Start_sync_scheduler"
    by auto
  have f: "filter is_graphiti_init evs = []"
    using lg by (intro filter_init_logs[of _ "''''"]) auto
  show "\<exists>g. aenter h lifespan = (Inr (), g) \<and> position g = Serving_ready \<and>
              tasks (frame g) = [Initialize_graphiti (load_initial_data h) (sync_mode h)] \<and>
              finished (frame g) = [] \<and> init_calls g = 0 \<and>
              position (serve h g) = Serving_ready"
    unfolding eq by (simp add: init_calls_def f serve_def)
qed

theorem lifespan_yields_before_initialize_witness:
  "graphiti_init stalled_host False ''initial'' = Pending \<and>
   fst (aenter stalled_host lifespan) = Inr () \<and>
   position (snd (aenter stalled_host lifespan)) = Serving_ready \<and>
   position (serve stalled_host (snd (aenter stalled_host lifespan))) = Serving_ready"
proof -
  have hyp: "enable_sync_scheduler stalled_host \<longrightarrow>
             (\<forall>m. start_sync_scheduler stalled_host \<noteq> Raised (BaseException m))"
    by (simp add: stalled_host_def default_host_def)
  from lifespan_yields_before_initialize[OF hyp, of "graphiti_init stalled_host"]
  obtain g where "aenter stalled_host lifespan = (Inr (), g)" "position g = Serving_ready"
    "position (serve stalled_host g) = Serving_ready" by blast
  then show ?thesis by (simp add: stalled_host_def default_host_def)
qed

subsection \<open>C2: what \<^verbatim>\<open>initialize_graphiti\<close> catches\<close>

text \<open>
  C2 says that any error the index initialiser raises, non-recoverable faults included, is
  caught in \<^verbatim>\<open>initialize_graphiti\<close> and turned into a logged failure. The handler is
  \<^verbatim>\<open>except Exception\<close>, so this fails for a raised object outside that class: when
  \<^verbatim>\<open>graphiti_init\<close> gives up with \<^verbatim>\<open>sys.exit\<close>, the \<^verbatim>\<open>SystemExit\<close> leaves the coroutine, the task
  ends with it, and nothing is logged after the call. The same holds for
  \<^verbatim>\<open>asyncio.CancelledError\<close> when the \<^verbatim>\<open>await\<close> is cancelled.
\<close>

theorem initialize_graphiti_BaseException_escapes:
  "initialize_graphiti exiting_host False ''initial'' fresh =
     (Failed (BaseException ''index store unavailable''),
      \<lparr>trace = [Graphiti_init False ''initial''], tasks = [], finished = []\<rparr>)"
  by (simp add: initialize_graphiti_cases exiting_host_def default_host_def fresh_def)

text \<open>
  C2, amended. Every instance of \<^verbatim>\<open>Exception\<close> that \<^verbatim>\<open>graphiti_init\<close> raises is caught in
  \<^verbatim>\<open>initialize_graphiti\<close>: the coroutine completes normally and its last record is the
  error \<^verbatim>\<open>Graphiti initialization failed: ...\<close> with the message of the exception. When the
  loop runs that task while \<^verbatim>\<open>lifespan\<close> is suspended at its \<^verbatim>\<open>yield\<close>, the task finishes as
  completed and the generator is still at the \<^verbatim>\<open>yield\<close>, serving.
\<close>

theorem initialize_graphiti_catches_Exception:
  assumes "graphiti_init h load mode = Failed (Exception m)"
    and "position g = Serving_ready"
    and "tasks (frame g) = [Initialize_graphiti load mode]"
  shows "fst (initialize_graphiti h load mode s) = Completed \<and>
         last (trace (snd (initialize_graphiti h load mode s))) =
           Log ERROR (''Graphiti initialization failed: '' @ m) \<and>
         position (serve h g) = Serving_ready \<and>
         finished (frame (serve h g)) =
           finished (frame g) @ [(Initialize_graphiti load mode, Completed)] \<and>
         last (trace (frame (serve h g))) = Log ERROR (''Graphiti initialization failed: '' @ m)"
proof -
  have eq: "initialize_graphiti h load mode s =
          (Completed,
           s\<lparr>trace := trace s @ Graphiti_init load mode # (if load then [Bulk_load mode] else []) @
                [Log ERROR (''Graphiti initialization failed: '' @ m)]\<rparr>)" for s
    using assms(1) by (simp add: initialize_graphiti_cases)
  have a: "fst (initialize_graphiti h load mode s) = Completed"
    and b: "last (trace (snd (initialize_graphiti h load mode s))) =
           Log ERROR (''Graphiti initialization failed: '' @ m)"
    unfolding eq by simp_all
  have sv: "serve h g = g\<lparr>frame := (frame g)\<lparr>tasks := [],
              trace := trace (frame g) @ Graphiti_init load mode #
                 (if load then [Bulk_load mode] else []) @
                [Log ERROR (''Graphiti initialization failed: '' @ m)],
              finished := finished (frame g) @ [(Initialize_graphiti load mode, Completed)]\<rparr>\<rparr>"
    using assms(3) by (simp add: serve_def eq)
  have c: "position (serve h g) = Serving_ready" unfolding sv using assms(2) by simp
  have d: "finished (frame (serve h g)) =
           finished (frame g) @ [(Initialize_graphiti load mode, Completed)]"
    unfolding sv by simp
  have e: "last (trace (frame (serve h g))) = Log ERROR (''Graphiti initialization failed: '' @ m)"
    unfolding sv by simp
  from a b c d e show ?thesis by blast
qed

theorem initialize_graphiti_catches_Exception_witness:
  "graphiti_init failing_host False ''initial'' = Failed (Exception ''neo4j unreachable'') \<and>
   position (snd (aenter failing_host lifespan)) = Serving_ready \<and>
   position (serve failing_host (snd (aenter failing_host lifespan))) = Serving_ready \<and>
   finished (frame (serve failing_host (snd (aenter failing_host lifespan)))) =
     [(Initialize_graphiti False ''initial'', Completed)] \<and>
   last (trace (frame (serve failing_host (snd (aenter failing_host lifespan))))) =
     Log ERROR ''Graphiti initialization failed: neo4j unreachable''"
proof -
  have fl: "\<not> enable_sync_scheduler failing_host" "\<not> load_initial_data failing_host"
    "sync_mode failing_host = ''initial''"
    by (simp_all add: enable_sync_scheduler_iff load_initial_data_iff sync_mode_def os_getenv_def
          failing_host_def default_host_def)
  have r: "graphiti_init failing_host False ''initial'' = Failed (Exception ''neo4j unreachable'')"
    by (simp add: failing_host_def default_host_def)
  have p: "position (snd (aenter failing_host lifespan)) = Serving_ready"
    by (rule aenter_ok) (simp add: fl)
  have t: "tasks (frame (snd (aenter failing_host lifespan))) = [Initialize_graphiti False ''initial'']"
    and f: "finished (frame (snd (aenter failing_host lifespan))) = []"
    using aenter_lifespan_shape[of failing_host] by (auto simp: fl)
  from initialize_graphiti_catches_Exception[OF r p t, of fresh] r p f show ?thesis by simp
qed

subsection \<open>C3: the initialisation is invoked once, as a task\<close>

text \<open>
  C3. For every host, the all-defaults one included, \<^verbatim>\<open>lifespan\<close> creates exactly one task
  for \<^verbatim>\<open>initialize_graphiti\<close>; on the startup path \<^verbatim>\<open>graphiti_init\<close> is not called at all;
  once the loop has run the queued task it has been called exactly once and the queue is
  empty, so that a further turn of the loop changes nothing, whatever the outcome of the
  call was; and the shutdown sequence does not call it again.
\<close>

theorem initialize_invoked_once_detached:
  "tasks (frame (snd (aenter h lifespan))) =
     [Initialize_graphiti (load_initial_data h) (sync_mode h)] \<and>
   calls (Create_task (load_initial_data h) (sync_mode h)) (snd (aenter h lifespan)) = 1 \<and>
   init_calls (snd (aenter h lifespan)) = 0 \<and>
   init_calls (serve h (snd (aenter h lifespan))) = 1 \<and>
   tasks (frame (serve h (snd (aenter h lifespan)))) = [] \<and>
   serve h (serve h (snd (aenter h lifespan))) = serve h (snd (aenter h lifespan)) \<and>
   init_calls (snd (aexit h (serve h (snd (aenter h lifespan))))) = 1 \<and>
   tasks (frame (snd (aexit h (serve h (snd (aenter h lifespan)))))) = []"
proof -
  let ?c = "Initialize_graphiti (load_initial_data h) (sync_mode h)"
  define g1 where "g1 = snd (aenter h lifespan)"
  from aenter_lifespan_shape[of h] obtain r p evs where
    eq: "aenter h lifespan =
      (r, \<lparr>position = p,
           frame = \<lparr>trace = banner h @
                      [Log INFO ''Initializing Graphiti knowledge graph...'',
                       Create_task (load_initial_data h) (sync_mode h),
                       Log INFO (''Graphiti initialization started in background (mode: '' @
                                 sync_mode h @ '')'')] @ evs,
                    tasks = [?c],
                    finished = []\<rparr>\<rparr>)" and
    lg: "\<forall>e\<in>set evs. is_log e \<or> e = Start_sync_scheduler" and
    pp: "(r = Inr () \<and> p = Serving_ready) \<or>
         (\<exists>m. r = Inl (BaseException m) \<and> p = Stopped \<and> enable_sync_scheduler h \<and>
              start_sync_scheduler h = Raised (BaseException m))"
    by blast
  have t1: "tasks (frame g1) = [?c]"
    and tr1: "trace (frame g1) = banner h @
                      [Log INFO ''Initializing Graphiti knowledge graph...'',
                       Create_task (load_initial_data h) (sync_mode h),
                       Log INFO (''Graphiti initialization started in background (mode: '' @
                                 sync_mode h @ '')'')] @ evs"
    and p1: "position g1 \<noteq> Not_started"
    unfolding g1_def eq using pp by auto
  have f1: "filter is_graphiti_init evs = []"
    using lg by (intro filter_init_logs[of _ "''''"]) auto
  have ct: "count_list evs (Create_task (load_initial_data h) (sync_mode h)) = 0"
    using lg by (intro count_logs[of _ Start_sync_scheduler]) auto
  have a: "calls (Create_task (load_initial_data h) (sync_mode h)) g1 = 1"
    unfolding calls_def tr1 using ct by simp
  have b: "init_calls g1 = 0"
    unfolding init_calls_def tr1 using f1 by simp
  from serve_shape[OF t1, of h] obtain r2 ivs where
    sv: "serve h g1 =
            g1\<lparr>frame := (frame g1)\<lparr>trace := trace (frame g1) @
                                      Graphiti_init (load_initial_data h) (sync_mode h) # ivs,
                                 tasks := [],
                                 finished := finished (frame g1) @ [(?c, r2)]\<rparr>\<rparr>" and
    ilg: "\<forall>e\<in>set ivs. is_log e \<or> e = Bulk_load (sync_mode h)"
    by blast
  have f2: "filter is_graphiti_init ivs = []"
    using ilg by (intro filter_init_logs[of _ "sync_mode h"]) auto
  have c: "init_calls (serve h g1) = 1"
    unfolding sv init_calls_def using tr1 f1 f2 by simp
  have d: "tasks (frame (serve h g1)) = []" unfolding sv by simp
  have e: "serve h (serve h g1) = serve h g1" using d by (rule serve_idle)
  have p2: "position (serve h g1) \<noteq> Not_started" unfolding sv using p1 by simp
  from aexit_frame[OF p2, of h] obtain xvs where
    ex: "frame (snd (aexit h (serve h g1))) =
           (frame (serve h g1))\<lparr>trace := trace (frame (serve h g1)) @ xvs\<rparr>" and
    xlg: "\<forall>e\<in>set xvs. is_log e \<or> e = Stop_sync_scheduler"
    by blast
  have f3: "filter is_graphiti_init xvs = []"
    using xlg by (intro filter_init_logs[of _ "''''"]) auto
  have f: "init_calls (snd (aexit h (serve h g1))) = 1"
    using c f3 unfolding init_calls_def ex by simp
  have g: "tasks (frame (snd (aexit h (serve h g1)))) = []"
    unfolding ex using d by simp
  from t1 a b c d e f g show ?thesis unfolding g1_def by blast
qed

theorem initialize_invoked_once_detached_witness:
  "\<not> load_initial_data default_host \<and>
   tasks (frame (snd (aenter default_host lifespan))) = [Initialize_graphiti False ''initial''] \<and>
   init_calls (snd (aenter default_host lifespan)) = 0 \<and>
   init_calls (serve default_host (snd (aenter default_host lifespan))) = 1 \<and>
   init_calls (snd (aexit default_host (serve default_host (snd (aenter default_host lifespan))))) = 1"
  using initialize_invoked_once_detached[of default_host]
  by (simp add: default_host_flags)

subsection \<open>C4: the scheduler is stopped once at shutdown\<close>

text \<open>
  C4. The shutdown sequence calls \<^verbatim>\<open>stop_sync_scheduler\<close> exactly once, for every host and
  from every state: the code after the \<^verbatim>\<open>yield\<close> adds one call to the trace, and so does
  leaving the context manager from the \<^verbatim>\<open>yield\<close>. Over a whole lifetime that reached the
  \<^verbatim>\<open>yield\<close> the count is 0 before the shutdown and 1 after it, while
  \<^verbatim>\<open>start_sync_scheduler\<close> has been called once if the scheduler is enabled and never if it
  is not.
\<close>

theorem stop_invoked_once_on_shutdown:
  "count_list (trace (snd (lifespan_shutdown h s))) Stop_sync_scheduler =
     Suc (count_list (trace s) Stop_sync_scheduler) \<and>
   (position g = Serving_ready \<longrightarrow>
      calls Stop_sync_scheduler (snd (aexit h g)) = Suc (calls Stop_sync_scheduler g)) \<and>
   (fst (aenter h lifespan) = Inr () \<longrightarrow>
      calls Stop_sync_scheduler (serve h (snd (aenter h lifespan))) = 0 \<and>
      calls Stop_sync_scheduler (snd (aexit h (serve h (snd (aenter h lifespan))))) = 1 \<and>
      calls Start_sync_scheduler (snd (aexit h (serve h (snd (aenter h lifespan))))) =
        (if enable_sync_scheduler h then 1 else 0))"
proof -
  from lifespan_shutdown_shape[of h s] have a:
    "count_list (trace (snd (lifespan_shutdown h s))) Stop_sync_scheduler =
       Suc (count_list (trace s) Stop_sync_scheduler)"
    by auto
  have b: "position g = Serving_ready \<longrightarrow>
      calls Stop_sync_scheduler (snd (aexit h g)) = Suc (calls Stop_sync_scheduler g)"
  proof
    assume "position g = Serving_ready"
    from aexit_shape[OF this, of h] show
      "calls Stop_sync_scheduler (snd (aexit h g)) = Suc (calls Stop_sync_scheduler g)"
      by (auto simp: calls_def)
  qed
  have c: "fst (aenter h lifespan) = Inr () \<longrightarrow>
      calls Stop_sync_scheduler (serve h (snd (aenter h lifespan))) = 0 \<and>
      calls Stop_sync_scheduler (snd (aexit h (serve h (snd (aenter h lifespan))))) = 1 \<and>
      calls Start_sync_scheduler (snd (aexit h (serve h (snd (aenter h lifespan))))) =
        (if enable_sync_scheduler h then 1 else 0)"
  proof
  assume ok: "fst (aenter h lifespan) = Inr ()"
  let ?c = "Initialize_graphiti (load_initial_data h) (sync_mode h)"
  from aenter_lifespan_shape[of h] ok obtain evs where
    eq: "snd (aenter h lifespan) =
      \<lparr>position = Serving_ready,
           frame = \<lparr>trace = banner h @
                      [Log INFO ''Initializing Graphiti knowledge graph...'',
                       Create_task (load_initial_data h) (sync_mode h),
                       Log INFO (''Graphiti initialization started in background (mode: '' @
                                 sync_mode h @ '')'')] @ evs,
                    tasks = [?c],
                    finished = []\<rparr>\<rparr>" and
    lg: "\<forall>e\<in>set evs. is_log e \<or> e = Start_sync_scheduler" and
    cn: "count_list evs Start_sync_scheduler = (if enable_sync_scheduler h then 1 else 0)"
    by auto
  define g1 where "g1 = snd (aenter h lifespan)"
  have p1: "position g1 = Serving_ready" and t1: "tasks (frame g1) = [?c]"
    and tr1: "trace (frame g1) = banner h @
                      [Log INFO ''Initializing Graphiti knowledge graph...'',
                       Create_task (load_initial_data h) (sync_mode h),
                       Log INFO (''Graphiti initialization started in background (mode: '' @
                                 sync_mode h @ '')'')] @ evs"
    unfolding g1_def eq by simp_all
  have stop0: "count_list evs Stop_sync_scheduler = 0"
    using lg by (intro count_logs[of _ Start_sync_scheduler]) auto
  from serve_shape[OF t1, of h] obtain r ivs where
    sv: "serve h g1 =
            g1\<lparr>frame := (frame g1)\<lparr>trace := trace (frame g1) @
                                      Graphiti_init (load_initial_data h) (sync_mode h) # ivs,
                                 tasks := [],
                                 finished := finished (frame g1) @ [(?c, r)]\<rparr>\<rparr>" and
    ilg: "\<forall>e\<in>set ivs. is_log e \<or> e = Bulk_load (sync_mode h)"
    by blast
  have istop: "count_list ivs Stop_sync_scheduler = 0"
    using ilg by (intro count_logs[of _ "Bulk_load (sync_mode h)"]) auto
  have istart: "count_list ivs Start_sync_scheduler = 0"
    using ilg by (intro count_logs[of _ "Bulk_load (sync_mode h)"]) auto
  have p2: "position (serve h g1) = Serving_ready" unfolding sv using p1 by simp
  have c2: "calls Stop_sync_scheduler (serve h g1) = 0"
    unfolding sv calls_def using tr1 stop0 istop by simp
  have s2: "calls Start_sync_scheduler (serve h g1) = (if enable_sync_scheduler h then 1 else 0)"
    unfolding sv calls_def using tr1 cn istart by simp
  from aexit_shape[OF p2, of h] obtain r' xvs where
    ex: "aexit h (serve h g1) =
            (r', \<lparr>position = Stopped,
                  frame = (frame (serve h g1))\<lparr>trace := trace (frame (serve h g1)) @ xvs\<rparr>\<rparr>)" and
    xlg: "\<forall>e\<in>set xvs. is_log e \<or> e = Stop_sync_scheduler" and
    xcn: "count_list xvs Stop_sync_scheduler = 1"
    by blast
  have xstart: "count_list xvs Start_sync_scheduler = 0"
    using xlg by (intro count_logs[of _ Stop_sync_scheduler]) auto
  have c3: "calls Stop_sync_scheduler (snd (aexit h (serve h g1))) = 1"
    using c2 xcn unfolding ex calls_def by simp
  have s3: "calls Start_sync_scheduler (snd (aexit h (serve h g1))) =
              (if enable_sync_scheduler h then 1 else 0)"
    using s2 xstart unfolding ex calls_def by simp
  from c2 c3 s3 show
    "calls Stop_sync_scheduler (serve h (snd (aenter h lifespan))) = 0 \<and>
     calls Stop_sync_scheduler (snd (aexit h (serve h (snd (aenter h lifespan))))) = 1 \<and>
     calls Start_sync_scheduler (snd (aexit h (serve h (snd (aenter h lifespan))))) =
        (if enable_sync_scheduler h then 1 else 0)"
    unfolding g1_def by simp
qed
  show ?thesis by (rule conjI[OF a conjI[OF b c]])
qed

theorem stop_invoked_once_on_shutdown_witness:
  "fst (aenter default_host lifespan) = Inr () \<and>
   \<not> enable_sync_scheduler default_host \<and>
   calls Stop_sync_scheduler
     (snd (aexit default_host (serve default_host (snd (aenter default_host lifespan))))) = 1 \<and>
   calls Start_sync_scheduler
     (snd (aexit default_host (serve default_host (snd (aenter default_host lifespan))))) = 0"
proof -
  have ok: "fst (aenter default_host lifespan) = Inr ()"
    by (rule aenter_ok) (simp add: default_host_flags)
  from stop_invoked_once_on_shutdown[of default_host fresh lifespan] ok show ?thesis
    by (simp add: default_host_flags)
qed

subsection \<open>C5: a failing stop does not break the shutdown\<close>

text \<open>
  C5. If \<^verbatim>\<open>stop_sync_scheduler\<close> raises an error (an instance of \<^verbatim>\<open>Exception\<close>) during
  shutdown, the error is caught and logged as \<^verbatim>\<open>Error stopping sync scheduler: ...\<close>, the
  code after the \<^verbatim>\<open>yield\<close> ends normally, and leaving the context manager returns
  normally with the generator finished.
\<close>

theorem stop_failure_logged_shutdown_completes:
  assumes "stop_sync_scheduler h = Raised (Exception m)" and "position g = Serving_ready"
  shows "lifespan_shutdown h s =
           (Inr (), s\<lparr>trace := trace s @
                        [Log INFO ''Shutting down FWTX Wiki API'', Stop_sync_scheduler,
                         Log ERROR (''Error stopping sync scheduler: '' @ m)]\<rparr>) \<and>
         aexit h g =
           (Inr (), \<lparr>position = Stopped,
                     frame = (frame g)\<lparr>trace := trace (frame g) @
                        [Log INFO ''Shutting down FWTX Wiki API'', Stop_sync_scheduler,
                         Log ERROR (''Error stopping sync scheduler: '' @ m)]\<rparr>\<rparr>)"
  using assms by (simp add: aexit_Serving_ready lifespan_shutdown_cases)

theorem stop_failure_logged_shutdown_completes_witness:
  "stop_sync_scheduler (default_host\<lparr>stop_sync_scheduler := Raised (Exception ''job store closed'')\<rparr>)
     = Raised (Exception ''job store closed'') \<and>
   aexit (default_host\<lparr>stop_sync_scheduler := Raised (Exception ''job store closed'')\<rparr>)
         \<lparr>position = Serving_ready, frame = fresh\<rparr> =
     (Inr (), \<lparr>position = Stopped,
               frame = \<lparr>trace = [Log INFO ''Shutting down FWTX Wiki API'', Stop_sync_scheduler,
                                  Log ERROR ''Error stopping sync scheduler: job store closed''],
                        tasks = [], finished = []\<rparr>\<rparr>)"
  using stop_failure_logged_shutdown_completes
          [of "default_host\<lparr>stop_sync_scheduler := Raised (Exception ''job store closed'')\<rparr>"
              "''job store closed''" "\<lparr>position = Serving_ready, frame = fresh\<rparr>" fresh]
  by (simp add: fresh_def)

subsection \<open>C6: with both flags off nothing is mutated\<close>

text \<open>
  C6. When \<^verbatim>\<open>LOAD_INITIAL_DATA\<close> and \<^verbatim>\<open>ENABLE_SYNC_SCHEDULER\<close> are each unset or set to
  something that is not a spelling of \<^verbatim>\<open>true\<close> (\<^verbatim>\<open>false\<close> in particular), \<^verbatim>\<open>lifespan\<close>
  reaches its \<^verbatim>\<open>yield\<close>, \<^verbatim>\<open>start_sync_scheduler\<close> is never called, and the task that was
  queued calls \<^verbatim>\<open>graphiti_init\<close> with \<^verbatim>\<open>load_initial_data_flag=False\<close> (the skip intent).
  After the loop has run the task, the only entries of the trace that are not log records
  are the creation of the task and that one call: no scheduler start and no bulk load.
\<close>

theorem defaults_reach_ready_without_mutation:
  assumes "\<forall>v. environ h ''LOAD_INITIAL_DATA'' = Some v \<longrightarrow> \<not> true_spelling v"
    and "\<forall>v. environ h ''ENABLE_SYNC_SCHEDULER'' = Some v \<longrightarrow> \<not> true_spelling v"
  shows "fst (aenter h lifespan) = Inr () \<and>
         position (snd (aenter h lifespan)) = Serving_ready \<and>
         calls Start_sync_scheduler (snd (aenter h lifespan)) = 0 \<and>
         tasks (frame (snd (aenter h lifespan))) = [Initialize_graphiti False (sync_mode h)] \<and>
         position (serve h (snd (aenter h lifespan))) = Serving_ready \<and>
         filter (\<lambda>e. \<not> is_log e) (trace (frame (serve h (snd (aenter h lifespan))))) =
           [Create_task False (sync_mode h), Graphiti_init False (sync_mode h)]"
proof -
  have nl: "\<not> load_initial_data h"
    using assms(1) by (auto simp: load_initial_data_iff split: option.splits)
  have ne: "\<not> enable_sync_scheduler h"
    using assms(2) by (auto simp: enable_sync_scheduler_iff split: option.splits)
  let ?c = "Initialize_graphiti False (sync_mode h)"
  define g1 where "g1 = snd (aenter h lifespan)"
  have ok: "fst (aenter h lifespan) = Inr ()" and p1: "position g1 = Serving_ready"
    unfolding g1_def using ne by (simp_all add: aenter_ok)
  from aenter_lifespan_shape[of h] nl ne obtain evs where
    eq: "g1 =
      \<lparr>position = Serving_ready,
           frame = \<lparr>trace = banner h @
                      [Log INFO ''Initializing Graphiti knowledge graph...'',
                       Create_task False (sync_mode h),
                       Log INFO (''Graphiti initialization started in background (mode: '' @
                                 sync_mode h @ '')'')] @ evs,
                    tasks = [?c],
                    finished = []\<rparr>\<rparr>" and
    lg: "\<forall>e\<in>set evs. is_log e \<or> e = Start_sync_scheduler" and
    cn: "count_list evs Start_sync_scheduler = 0"
    unfolding g1_def by auto
  have nostart: "Start_sync_scheduler \<notin> set evs"
    using cn by (simp add: count_list_0_iff)
  with lg have lg': "\<forall>e\<in>set evs. is_log e" by blast
  have t1: "tasks (frame g1) = [?c]" unfolding eq by simp
  have tr1: "trace (frame g1) = banner h @
                      [Log INFO ''Initializing Graphiti knowledge graph...'',
                       Create_task False (sync_mode h),
                       Log INFO (''Graphiti initialization started in background (mode: '' @
                                 sync_mode h @ '')'')] @ evs"
    unfolding eq by simp
  have a: "calls Start_sync_scheduler g1 = 0"
    unfolding calls_def tr1 using cn by simp
  from serve_shape[OF t1, of h] obtain r ivs where
    sv: "serve h g1 =
            g1\<lparr>frame := (frame g1)\<lparr>trace := trace (frame g1) @
                                      Graphiti_init False (sync_mode h) # ivs,
                                 tasks := [],
                                 finished := finished (frame g1) @ [(?c, r)]\<rparr>\<rparr>" and
    ilg: "\<forall>e\<in>set ivs. is_log e \<or> e = Bulk_load (sync_mode h)" and
    bl: "Bulk_load (sync_mode h) \<in> set ivs \<longleftrightarrow> False"
    by blast
  from ilg bl have ilg': "\<forall>e\<in>set ivs. is_log e" by blast
  have p2: "position (serve h g1) = Serving_ready" unfolding sv using p1 by simp
  have b: "filter (\<lambda>e. \<not> is_log e) (trace (frame (serve h g1))) =
           [Create_task False (sync_mode h), Graphiti_init False (sync_mode h)]"
    unfolding sv using tr1
    by (simp add: filter_not_log[OF lg'] filter_not_log[OF ilg'] filter_not_log[OF banner_all_logs])
  from ok p1 a t1 p2 b show ?thesis unfolding g1_def by blast
qed

theorem defaults_reach_ready_without_mutation_witness:
  "environ quiet_host ''LOAD_INITIAL_DATA'' = Some ''false'' \<and>
   environ quiet_host ''ENABLE_SYNC_SCHEDULER'' = None \<and>
   position (snd (aenter quiet_host lifespan)) = Serving_ready \<and>
   calls Start_sync_scheduler (snd (aenter quiet_host lifespan)) = 0 \<and>
   filter (\<lambda>e. \<not> is_log e) (trace (frame (serve quiet_host (snd (aenter quiet_host lifespan))))) =
     [Create_task False ''initial'', Graphiti_init False ''initial'']"
proof -
  have e: "environ quiet_host ''LOAD_INITIAL_DATA'' = Some ''false''"
    "environ quiet_host ''ENABLE_SYNC_SCHEDULER'' = None"
    by (simp_all add: quiet_host_def default_host_def)
  have m: "sync_mode quiet_host = ''initial''"
    by (simp add: sync_mode_def os_getenv_def quiet_host_def default_host_def)
  have h1: "\<forall>v. environ quiet_host ''LOAD_INITIAL_DATA'' = Some v \<longrightarrow> \<not> true_spelling v"
    by (simp add: e true_spelling_def)
  have h2: "\<forall>v. environ quiet_host ''ENABLE_SYNC_SCHEDULER'' = Some v \<longrightarrow> \<not> true_spelling v"
    by (simp add: e)
  from defaults_reach_ready_without_mutation[OF h1 h2] e m show ?thesis by simp
qed

subsection \<open>C7: a failing scheduler start does not break the startup\<close>

text \<open>
  C7. If the scheduler is enabled and \<^verbatim>\<open>start_sync_scheduler\<close> raises an error (an instance
  of \<^verbatim>\<open>Exception\<close>), the error is caught and logged as
  \<^verbatim>\<open>Failed to start sync scheduler: ...\<close>, the statement ends normally, and \<^verbatim>\<open>lifespan\<close>
  reaches its \<^verbatim>\<open>yield\<close> with that record as the last one of the startup.
\<close>

theorem start_failure_logged_startup_continues:
  assumes "enable_sync_scheduler h" and "start_sync_scheduler h = Raised (Exception m)"
  shows "start_scheduler h s =
           (Inr (), s\<lparr>trace := trace s @
                        [Log INFO ''Starting data sync scheduler...'', Start_sync_scheduler,
                         Log ERROR (''Failed to start sync scheduler: '' @ m)]\<rparr>) \<and>
         fst (aenter h lifespan) = Inr () \<and>
         position (snd (aenter h lifespan)) = Serving_ready \<and>
         last (trace (frame (snd (aenter h lifespan)))) =
           Log ERROR (''Failed to start sync scheduler: '' @ m)"
proof -
  have a: "start_scheduler h s =
           (Inr (), s\<lparr>trace := trace s @
                        [Log INFO ''Starting data sync scheduler...'', Start_sync_scheduler,
                         Log ERROR (''Failed to start sync scheduler: '' @ m)]\<rparr>)" for s
    using assms by (rule start_scheduler_Exception)
  have b: "fst (aenter h lifespan) = Inr ()" "position (snd (aenter h lifespan)) = Serving_ready"
    using assms by (simp_all add: aenter_ok)
  have c: "last (trace (frame (snd (aenter h lifespan)))) =
           Log ERROR (''Failed to start sync scheduler: '' @ m)"
    by (simp add: aenter_def anext_def lifespan_def lifespan_startup_eq a)
  from a b c show ?thesis by simp
qed

theorem start_failure_logged_startup_continues_witness:
  "enable_sync_scheduler stalled_host \<and>
   start_sync_scheduler stalled_host = Raised (Exception ''scheduler unavailable'') \<and>
   fst (aenter stalled_host lifespan) = Inr () \<and>
   position (snd (aenter stalled_host lifespan)) = Serving_ready \<and>
   last (trace (frame (snd (aenter stalled_host lifespan)))) =
     Log ERROR ''Failed to start sync scheduler: scheduler unavailable''"
proof -
  have e: "enable_sync_scheduler stalled_host"
    by (simp add: enable_sync_scheduler_iff stalled_host_def default_host_def true_spelling_def)
  have r: "start_sync_scheduler stalled_host = Raised (Exception ''scheduler unavailable'')"
    by (simp add: stalled_host_def default_host_def)
  from start_failure_logged_startup_continues[OF e r, of fresh] e r show ?thesis by simp
qed

subsection \<open>C8: triggering the shutdown twice\<close>

text \<open>
  C8. The shutdown trigger leaves the context manager, which resumes the generator. From
  the \<^verbatim>\<open>yield\<close> that runs the code after it, once; a second trigger finds the generator
  finished, runs nothing, returns normally and leaves the state as the first trigger left
  it. Both together have called \<^verbatim>\<open>stop_sync_scheduler\<close> exactly once.
\<close>

theorem shutdown_twice_same_as_once:
  assumes "position g = Serving_ready"
  shows "aexit h (snd (aexit h g)) = (Inr (), snd (aexit h g)) \<and>
         calls Stop_sync_scheduler (snd (aexit h (snd (aexit h g)))) =
           Suc (calls Stop_sync_scheduler g)"
proof -
  from aexit_shape[OF assms, of h] obtain r evs where
    eq: "aexit h g = (r, \<lparr>position = Stopped, frame = (frame g)\<lparr>trace := trace (frame g) @ evs\<rparr>\<rparr>)"
    and cn: "count_list evs Stop_sync_scheduler = 1"
    by blast
  have p: "position (snd (aexit h g)) = Stopped" unfolding eq by simp
  have a: "aexit h (snd (aexit h g)) = (Inr (), snd (aexit h g))"
    using p by (rule aexit_Stopped)
  have "calls Stop_sync_scheduler (snd (aexit h g)) = Suc (calls Stop_sync_scheduler g)"
    unfolding eq calls_def using cn by simp
  with a show ?thesis by simp
qed

theorem shutdown_twice_same_as_once_witness:
  "position (snd (aenter default_host lifespan)) = Serving_ready \<and>
   aexit default_host (snd (aexit default_host (snd (aenter default_host lifespan)))) =
     (Inr (), snd (aexit default_host (snd (aenter default_host lifespan)))) \<and>
   calls Stop_sync_scheduler
     (snd (aexit default_host (snd (aexit default_host (snd (aenter default_host lifespan)))))) = 1"
proof -
  have p: "position (snd (aenter default_host lifespan)) = Serving_ready"
    by (rule aenter_ok) (simp add: default_host_flags)
  have z: "calls Stop_sync_scheduler (snd (aenter default_host lifespan)) = 0"
    by (rule aenter_no_stop)
  note t = shutdown_twice_same_as_once[OF p, of default_host]
  from t have a:
    "aexit default_host (snd (aexit default_host (snd (aenter default_host lifespan)))) =
       (Inr (), snd (aexit default_host (snd (aenter default_host lifespan))))"
    by (rule conjunct1)
  from t have "calls Stop_sync_scheduler
     (snd (aexit default_host (snd (aexit default_host (snd (aenter default_host lifespan)))))) =
     Suc (calls Stop_sync_scheduler (snd (aenter default_host lifespan)))"
    by (rule conjunct2)
  with z have b: "calls Stop_sync_scheduler
     (snd (aexit default_host (snd (aexit default_host (snd (aenter default_host lifespan)))))) = 1"
    by simp
  show ?thesis by (rule conjI[OF p conjI[OF a b]])
qed

subsection \<open>C9: the configuration read at startup\<close>

text \<open>
  C9 says that an unrecognized \<^verbatim>\<open>SYNC_MODE\<close> falls back to \<^verbatim>\<open>initial\<close>. Line 53 only
  supplies a default for a variable that is unset; a value that is set is not compared
  with anything. With \<^verbatim>\<open>SYNC_MODE=bogus\<close> the mode is \<^verbatim>\<open>bogus\<close>, and that is what the task
  is created with.
\<close>

theorem unrecognized_sync_mode_passed_through:
  "sync_mode bogus_mode_host = ''bogus'' \<and> sync_mode bogus_mode_host \<noteq> ''initial'' \<and>
   tasks (frame (snd (aenter bogus_mode_host lifespan))) = [Initialize_graphiti False ''bogus'']"
proof -
  have m: "sync_mode bogus_mode_host = ''bogus''"
    by (simp add: sync_mode_def os_getenv_def bogus_mode_host_def default_host_def)
  have l: "\<not> load_initial_data bogus_mode_host"
    by (simp add: load_initial_data_iff bogus_mode_host_def default_host_def)
  from aenter_lifespan_shape[of bogus_mode_host] m l show ?thesis by auto
qed

text \<open>
  C9, amended. Reading the startup configuration never fails. \<^verbatim>\<open>load_initial_data\<close> is
  true exactly when \<^verbatim>\<open>LOAD_INITIAL_DATA\<close> is set to a spelling of \<^verbatim>\<open>true\<close>, so a missing or
  unrecognized value gives false (the skip intent). \<^verbatim>\<open>sync_mode\<close> is \<^verbatim>\<open>initial\<close> when
  \<^verbatim>\<open>SYNC_MODE\<close> is unset and otherwise the value as it is, recognized or not. The statement
  that reads both ends normally with the task created from exactly these two values.
\<close>

theorem startup_configuration_selection:
  "load_initial_data h =
     (case environ h ''LOAD_INITIAL_DATA'' of None \<Rightarrow> False | Some v \<Rightarrow> true_spelling v) \<and>
   sync_mode h = (case environ h ''SYNC_MODE'' of None \<Rightarrow> ''initial'' | Some v \<Rightarrow> v) \<and>
   fst (start_graphiti h s) = Inr () \<and>
   tasks (snd (start_graphiti h s)) =
     tasks s @ [Initialize_graphiti (load_initial_data h) (sync_mode h)]"
  by (simp add: load_initial_data_iff sync_mode_def os_getenv_def start_graphiti_eq)

theorem startup_configuration_selection_witness:
  "\<not> load_initial_data (default_host\<lparr>environ := [''LOAD_INITIAL_DATA'' \<mapsto> ''yes'']\<rparr>) \<and>
   sync_mode (default_host\<lparr>environ := [''LOAD_INITIAL_DATA'' \<mapsto> ''yes'']\<rparr>) = ''initial'' \<and>
   tasks (snd (start_graphiti (default_host\<lparr>environ := [''LOAD_INITIAL_DATA'' \<mapsto> ''yes'']\<rparr>) fresh)) =
     [Initialize_graphiti False ''initial'']"
  using startup_configuration_selection
          [of "default_host\<lparr>environ := [''LOAD_INITIAL_DATA'' \<mapsto> ''yes'']\<rparr>" fresh]
  by (simp add: default_host_def true_spelling_def fresh_def)

subsection \<open>C10: the boolean flags\<close>

text \<open>
  C10. Each of the flags \<^verbatim>\<open>LOAD_INITIAL_DATA\<close> and \<^verbatim>\<open>ENABLE_SYNC_SCHEDULER\<close> is enabled if
  and only if the variable is set and its value is \<^verbatim>\<open>true\<close> in some mix of upper and lower
  case. \<^verbatim>\<open>1\<close>, \<^verbatim>\<open>yes\<close> and \<^verbatim>\<open>true\<close> with blanks around it are not such values. The flags
  act accordingly: the task is created with the load flag so determined, and
  \<^verbatim>\<open>start_sync_scheduler\<close> is called during startup exactly when the scheduler flag is
  enabled.
\<close>

theorem flag_enabled_iff_true_spelling:
  "(load_initial_data h \<longleftrightarrow> (\<exists>v. environ h ''LOAD_INITIAL_DATA'' = Some v \<and> true_spelling v)) \<and>
   (enable_sync_scheduler h \<longleftrightarrow>
      (\<exists>v. environ h ''ENABLE_SYNC_SCHEDULER'' = Some v \<and> true_spelling v)) \<and>
   true_spelling ''true'' \<and> true_spelling ''True'' \<and> true_spelling ''TRUE'' \<and>
   \<not> true_spelling ''1'' \<and> \<not> true_spelling ''yes'' \<and> \<not> true_spelling '' true '' \<and>
   tasks (frame (snd (aenter h lifespan))) =
     [Initialize_graphiti (\<exists>v. environ h ''LOAD_INITIAL_DATA'' = Some v \<and> true_spelling v)
        (sync_mode h)] \<and>
   (Start_sync_scheduler \<in> set (trace (frame (snd (aenter h lifespan)))) \<longleftrightarrow>
      (\<exists>v. environ h ''ENABLE_SYNC_SCHEDULER'' = Some v \<and> true_spelling v))"
proof -
  have a: "load_initial_data h \<longleftrightarrow> (\<exists>v. environ h ''LOAD_INITIAL_DATA'' = Some v \<and> true_spelling v)"
    by (simp add: load_initial_data_iff split: option.splits)
  have b: "enable_sync_scheduler h \<longleftrightarrow>
      (\<exists>v. environ h ''ENABLE_SYNC_SCHEDULER'' = Some v \<and> true_spelling v)"
    by (simp add: enable_sync_scheduler_iff split: option.splits)
  have c: "true_spelling ''true''" "true_spelling ''True''" "true_spelling ''TRUE''"
    by (simp_all add: true_spelling_def)
  have d: "\<not> true_spelling ''1''" "\<not> true_spelling ''yes''" "\<not> true_spelling '' true ''"
    by (simp_all add: true_spelling_def)
  from aenter_lifespan_shape[of h] obtain r p evs where
    eq: "aenter h lifespan =
      (r, \<lparr>position = p,
           frame = \<lparr>trace = banner h @
                      [Log INFO ''Initializing Graphiti knowledge graph...'',
                       Create_task (load_initial_data h) (sync_mode h),
                       Log INFO (''Graphiti initialization started in background (mode: '' @
                                 sync_mode h @ '')'')] @ evs,
                    tasks = [Initialize_graphiti (load_initial_data h) (sync_mode h)],
                    finished = []\<rparr>\<rparr>)" and
    cn: "count_list evs Start_sync_scheduler = (if enable_sync_scheduler h then 1 else 0)"
    by blast
  have e: "tasks (frame (snd (aenter h lifespan))) =
     [Initialize_graphiti (\<exists>v. environ h ''LOAD_INITIAL_DATA'' = Some v \<and> true_spelling v)
        (sync_mode h)]"
    unfolding eq using a by simp
  have "Start_sync_scheduler \<in> set evs \<longleftrightarrow> enable_sync_scheduler h"
    using cn count_list_0_iff[of evs Start_sync_scheduler] by (auto split: if_splits)
  then have f: "Start_sync_scheduler \<in> set (trace (frame (snd (aenter h lifespan)))) \<longleftrightarrow>
      (\<exists>v. environ h ''ENABLE_SYNC_SCHEDULER'' = Some v \<and> true_spelling v)"
    unfolding eq using b by simp
  show ?thesis
    by (intro conjI) (rule a b c d e f)+
qed

theorem flag_enabled_iff_true_spelling_witness:
  "environ shouting_host ''ENABLE_SYNC_SCHEDULER'' = Some ''TRUE'' \<and>
   environ shouting_host ''LOAD_INITIAL_DATA'' = Some ''1'' \<and>
   enable_sync_scheduler shouting_host \<and> \<not> load_initial_data shouting_host \<and>
   tasks (frame (snd (aenter shouting_host lifespan))) = [Initialize_graphiti False ''initial''] \<and>
   Start_sync_scheduler \<in> set (trace (frame (snd (aenter shouting_host lifespan))))"
proof -
  have e: "environ shouting_host ''ENABLE_SYNC_SCHEDULER'' = Some ''TRUE''"
    "environ shouting_host ''LOAD_INITIAL_DATA'' = Some ''1''"
    by (simp_all add: shouting_host_def default_host_def)
  have m: "sync_mode shouting_host = ''initial''"
    by (simp add: sync_mode_def os_getenv_def shouting_host_def default_host_def)
  from flag_enabled_iff_true_spelling[of shouting_host] e m show ?thesis
    by (simp add: true_spelling_def)
qed

end
